theory Spec2Isabelle
  imports Main "HOL-Library.AList"
begin

section \<open>Attributes of a dataset: a shallow embedding of \<^verbatim>\<open>tamr_client/attributes/attribute.py\<close>\<close>

text \<open>
  The module is a thin CRUD layer over an HTTP session. Its functions are embedded here
  with the source's names; a leading underscore, which Isabelle does not allow, is written
  as the prefix \<open>priv_\<close> (\<^verbatim>\<open>_from_json\<close> is \<open>priv_from_json\<close>, \<^verbatim>\<open>_create\<close> is
  \<open>priv_create\<close>). The fields of \<^verbatim>\<open>Attribute\<close>, \<^verbatim>\<open>Dataset\<close> and the session carry the name
  of their class as a prefix, so that the source's parameter names (\<^verbatim>\<open>name\<close>,
  \<^verbatim>\<open>description\<close>, \<^verbatim>\<open>url\<close>) stay free for variables.
\<close>

subsection \<open>Values\<close>

text \<open>
  A decoded JSON payload, as Python holds it: \<^verbatim>\<open>None\<close>, \<^verbatim>\<open>bool\<close>, \<^verbatim>\<open>int\<close>, \<^verbatim>\<open>str\<close>,
  \<^verbatim>\<open>list\<close> and \<^verbatim>\<open>dict\<close> with string keys. A dict is an association list in insertion
  order; a lookup takes the first binding of a key. Floating-point numbers are left out.
\<close>

datatype json =
    JNull
  | JBool bool
  | JNum int
  | JStr string
  | JList "json list"
  | JDict "(string \<times> json) list"

text \<open>
  The exceptions that leave the module. The first three are the classes the module
  declares, each carrying the argument it is raised with. \<open>KeyError\<close>, \<open>TypeError\<close> and
  \<open>AttributeError\<close> are what the interpreter raises on a subscript or method call that
  the value does not support; \<open>HTTPError\<close> is the transport failure, with the status.
\<close>

datatype error =
    AttributeNotFound string
  | AttributeExists string
  | ReservedAttributeName string
  | KeyError string
  | TypeError
  | AttributeError
  | HTTPError int

text \<open>
  \<^verbatim>\<open>URL\<close> (module \<^verbatim>\<open>tamr_client.url\<close>) and \<^verbatim>\<open>Dataset\<close> (module
  \<^verbatim>\<open>tamr_client.datasets.dataset\<close>) are frozen dataclasses declared outside this file.
  The code reads and replaces \<^verbatim>\<open>url.path\<close> and reads \<^verbatim>\<open>dataset.url\<close>; whatever other fields
  they have is the extension of the record.
\<close>

record URL =
  path :: string

record 'x Dataset =
  dataset_url :: "'x URL_scheme"

text \<open>
  The dataclass \<^verbatim>\<open>Attribute\<close>. Python does not enforce the annotations
  \<^verbatim>\<open>name: str\<close>, \<^verbatim>\<open>is_nullable: bool\<close>, \<^verbatim>\<open>description: Optional[str]\<close>: \<^verbatim>\<open>_from_json\<close> stores the
  values of the payload as they are. The fields filled from a payload are therefore JSON
  values; \<^verbatim>\<open>None\<close> is \<open>JNull\<close>. The type \<open>'t\<close> is \<^verbatim>\<open>AttributeType\<close>.
\<close>

record ('x, 't) Attribute =
  attribute_url :: "'x URL_scheme"
  attribute_name :: json
  attribute_type :: 't
  attribute_is_nullable :: json
  attribute_json :: json
  attribute_description :: json

subsection \<open>The session and what the module imports\<close>

text \<open>
  A response of the session: the status code and the decoded body (\<^verbatim>\<open>r.json()\<close>). The
  session is an external collaborator; at its boundary every response has an integer
  status and a body that decodes as JSON, and a call returns a response. A body that does
  not decode and a failure below HTTP are outside this model.
\<close>

record Response =
  status_code :: int
  json_body :: json

text \<open>
  The session is the server seen through four verbs. A call may change the state \<open>'s\<close> of
  whatever stands behind the session (the server, a counter of calls), so each verb takes
  the state and returns the response with the new state.
\<close>

record 's Session =
  session_get :: "string \<Rightarrow> 's \<Rightarrow> Response \<times> 's"
  session_post :: "string \<Rightarrow> json \<Rightarrow> 's \<Rightarrow> Response \<times> 's"
  session_put :: "string \<Rightarrow> json \<Rightarrow> 's \<Rightarrow> Response \<times> 's"
  session_delete :: "string \<Rightarrow> 's \<Rightarrow> Response \<times> 's"

text \<open>
  The functions of other modules that the code calls and that are not part of this file:
  \<^verbatim>\<open>str(url)\<close>, \<^verbatim>\<open>attribute_type.from_json\<close> (which may raise),
  \<^verbatim>\<open>attribute_type.to_json\<close>, and the rendering of a value that is not a \<^verbatim>\<open>str\<close> inside an
  f-string. They are parameters of every definition below.
\<close>

record ('x, 't) externals =
  url_str :: "'x URL_scheme \<Rightarrow> string"
  type_from_json :: "json \<Rightarrow> error + 't"
  type_to_json :: "'t \<Rightarrow> json"
  render :: "json \<Rightarrow> string"

text \<open>
  Modelled from the spec: \<^verbatim>\<open>response.successful\<close> (module \<^verbatim>\<open>tamr_client.response\<close>) is
  missing from the sources at hand. The spec describes it as the helper that raises a
  transport-level error for any status not in the 2xx range, and hands the response back
  otherwise.
\<close>

definition successful :: "Response \<Rightarrow> error + Response" where
  "successful r =
     (if 200 \<le> status_code r \<and> status_code r < 300 then Inr r
      else Inl (HTTPError (status_code r)))"

subsection \<open>Python's operations on values\<close>

text \<open>\<^verbatim>\<open>v[k]\<close> with a string key: only a dict supports it, and the key must be there.\<close>

definition getitem :: "json \<Rightarrow> string \<Rightarrow> error + json" where
  "getitem v k =
     (case v of
        JDict d \<Rightarrow> (case map_of d k of None \<Rightarrow> Inl (KeyError k) | Some x \<Rightarrow> Inr x)
      | _ \<Rightarrow> Inl TypeError)"

text \<open>\<^verbatim>\<open>v.get(k)\<close>: a method of dicts, \<^verbatim>\<open>None\<close> for a key that is not there.\<close>

definition dict_get :: "json \<Rightarrow> string \<Rightarrow> error + json" where
  "dict_get v k =
     (case v of
        JDict d \<Rightarrow> (case map_of d k of None \<Rightarrow> Inr JNull | Some x \<Rightarrow> Inr x)
      | _ \<Rightarrow> Inl AttributeError)"

text \<open>
  \<^verbatim>\<open>for x in v\<close>: a list gives its elements, a dict its keys, a string its characters;
  nothing else can be iterated.
\<close>

definition iterate :: "json \<Rightarrow> error + json list" where
  "iterate v =
     (case v of
        JList xs \<Rightarrow> Inr xs
      | JDict d \<Rightarrow> Inr (map (\<lambda>kv. JStr (fst kv)) d)
      | JStr s \<Rightarrow> Inr (map (\<lambda>c. JStr [c]) s)
      | _ \<Rightarrow> Inl TypeError)"

text \<open>\<^verbatim>\<open>f"{v}"\<close>: a string is inserted as it is, any other value as the interpreter renders it.\<close>

definition fmt :: "('x, 't) externals \<Rightarrow> json \<Rightarrow> string" where
  "fmt E v = (case v of JStr s \<Rightarrow> s | _ \<Rightarrow> render E v)"

text \<open>An \<^verbatim>\<open>Optional[str]\<close> argument as the value that goes into a JSON body.\<close>

definition optional_str :: "string option \<Rightarrow> json" where
  "optional_str description = (case description of None \<Rightarrow> JNull | Some d \<Rightarrow> JStr d)"

subsection \<open>The module\<close>

definition RESERVED_NAMES :: "string set" where
  "RESERVED_NAMES =
     {''origin_source_name'', ''tamr_id'', ''origin_entity_id'',
      ''clusterId'', ''originSourceId'', ''originEntityId'', ''sourceId'', ''entityId'',
      ''suggestedClusterId'', ''verificationType'', ''verifiedClusterId''}"

text \<open>
  \<^verbatim>\<open>_from_json\<close>. The arguments of the constructor are evaluated from left to right:
  \<^verbatim>\<open>cp["name"]\<close>, \<^verbatim>\<open>cp.get("description")\<close>, \<^verbatim>\<open>cp["isNullable"]\<close>, then
  \<^verbatim>\<open>attribute_type.from_json(cp["type"])\<close>; the first that raises ends the call. The deep
  copy is the value itself.
\<close>

definition priv_from_json ::
  "('x, 't) externals \<Rightarrow> 'x URL_scheme \<Rightarrow> json \<Rightarrow> error + ('x, 't) Attribute" where
  "priv_from_json E url data =
     (let cp = data in
      case getitem cp ''name'' of Inl e \<Rightarrow> Inl e | Inr name \<Rightarrow>
      case dict_get cp ''description'' of Inl e \<Rightarrow> Inl e | Inr description \<Rightarrow>
      case getitem cp ''isNullable'' of Inl e \<Rightarrow> Inl e | Inr is_nullable \<Rightarrow>
      case getitem cp ''type'' of Inl e \<Rightarrow> Inl e | Inr tj \<Rightarrow>
      case type_from_json E tj of Inl e \<Rightarrow> Inl e | Inr ty \<Rightarrow>
        Inr \<lparr>attribute_url = url, attribute_name = name, attribute_type = ty,
             attribute_is_nullable = is_nullable, attribute_json = cp,
             attribute_description = description\<rparr>)"

definition priv_from_url ::
  "('x, 't) externals \<Rightarrow> 's Session \<Rightarrow> 'x URL_scheme \<Rightarrow> 's
     \<Rightarrow> (error + ('x, 't) Attribute) \<times> 's" where
  "priv_from_url E session url s =
     (case session_get session (url_str E url) s of (r, s') \<Rightarrow>
        if status_code r = 404 then (Inl (AttributeNotFound (url_str E url)), s')
        else case successful r of
               Inl e \<Rightarrow> (Inl e, s')
             | Inr r' \<Rightarrow> (priv_from_json E url (json_body r'), s'))"

definition from_resource_id ::
  "('x, 't) externals \<Rightarrow> 's Session \<Rightarrow> ('x, 'y) Dataset_scheme \<Rightarrow> string \<Rightarrow> 's
     \<Rightarrow> (error + ('x, 't) Attribute) \<times> 's" where
  "from_resource_id E session dataset rid s =
     (let url = (dataset_url dataset)\<lparr>path := path (dataset_url dataset) @ ''/attributes/'' @ rid\<rparr>
      in priv_from_url E session url s)"

text \<open>
  The loop of \<^verbatim>\<open>from_dataset_all\<close>, with the list \<^verbatim>\<open>attrs\<close> as accumulator. An element that
  raises ends the loop with that exception.
\<close>

fun attrs_loop ::
  "('x, 't) externals \<Rightarrow> 'x URL_scheme \<Rightarrow> ('x, 't) Attribute list \<Rightarrow> json list
     \<Rightarrow> error + ('x, 't) Attribute list" where
  "attrs_loop E attrs_url attrs [] = Inr attrs"
| "attrs_loop E attrs_url attrs (attr_json # rest) =
     (case getitem attr_json ''name'' of Inl e \<Rightarrow> Inl e | Inr rid \<Rightarrow>
      let attr_url = attrs_url\<lparr>path := path attrs_url @ ''/'' @ fmt E rid\<rparr> in
      case priv_from_json E attr_url attr_json of Inl e \<Rightarrow> Inl e | Inr attr \<Rightarrow>
        attrs_loop E attrs_url (attrs @ [attr]) rest)"

definition from_dataset_all ::
  "('x, 't) externals \<Rightarrow> 's Session \<Rightarrow> ('x, 'y) Dataset_scheme \<Rightarrow> 's
     \<Rightarrow> (error + ('x, 't) Attribute list) \<times> 's" where
  "from_dataset_all E session dataset s =
     (let attrs_url = (dataset_url dataset)\<lparr>path := path (dataset_url dataset) @ ''/attributes''\<rparr>
      in case session_get session (url_str E attrs_url) s of (r, s') \<Rightarrow>
         case successful r of
           Inl e \<Rightarrow> (Inl e, s')
         | Inr r' \<Rightarrow>
             (case iterate (json_body r') of
                Inl e \<Rightarrow> (Inl e, s')
              | Inr attrs_json \<Rightarrow> (attrs_loop E attrs_url [] attrs_json, s')))"

text \<open>\<^verbatim>\<open>to_json\<close>; \<^verbatim>\<open>d["description"] = v\<close> is the update of the association list.\<close>

definition to_json :: "('x, 't) externals \<Rightarrow> ('x, 't) Attribute \<Rightarrow> json" where
  "to_json E attr =
     (let d = [(''name'', attribute_name attr),
               (''type'', type_to_json E (attribute_type attr)),
               (''isNullable'', attribute_is_nullable attr)]
      in if attribute_description attr \<noteq> JNull
         then JDict (AList.update ''description'' (attribute_description attr) d)
         else JDict d)"

text \<open>
  \<^verbatim>\<open>_create\<close> and \<^verbatim>\<open>create\<close>. The arguments come from the caller and have the types of
  the annotations: \<^verbatim>\<open>name: str\<close>, \<^verbatim>\<open>is_nullable: bool\<close>, \<^verbatim>\<open>description: Optional[str]\<close>. The
  default of \<^verbatim>\<open>type\<close> is a constant of another module; here the type is always given.
\<close>

definition priv_create ::
  "('x, 't) externals \<Rightarrow> 's Session \<Rightarrow> ('x, 'y) Dataset_scheme \<Rightarrow> string \<Rightarrow> bool \<Rightarrow> 't
     \<Rightarrow> string option \<Rightarrow> 's \<Rightarrow> (error + ('x, 't) Attribute) \<times> 's" where
  "priv_create E session dataset name is_nullable ty description s =
     (let attrs_url = (dataset_url dataset)\<lparr>path := path (dataset_url dataset) @ ''/attributes''\<rparr>;
          url = attrs_url\<lparr>path := path attrs_url @ ''/'' @ name\<rparr>;
          body = [(''name'', JStr name),
                  (''type'', type_to_json E ty),
                  (''isNullable'', JBool is_nullable)];
          body = (case description of
                    None \<Rightarrow> body
                  | Some d \<Rightarrow> AList.update ''description'' (JStr d) body)
      in case session_post session (url_str E attrs_url) (JDict body) s of (r, s') \<Rightarrow>
         if status_code r = 409 then (Inl (AttributeExists (url_str E url)), s')
         else case successful r of
                Inl e \<Rightarrow> (Inl e, s')
              | Inr r' \<Rightarrow> (priv_from_json E url (json_body r'), s'))"

definition create ::
  "('x, 't) externals \<Rightarrow> 's Session \<Rightarrow> ('x, 'y) Dataset_scheme \<Rightarrow> string \<Rightarrow> bool \<Rightarrow> 't
     \<Rightarrow> string option \<Rightarrow> 's \<Rightarrow> (error + ('x, 't) Attribute) \<times> 's" where
  "create E session dataset name is_nullable ty description s =
     (if name \<in> RESERVED_NAMES then (Inl (ReservedAttributeName name), s)
      else priv_create E session dataset name is_nullable ty description s)"

text \<open>\<^verbatim>\<open>update\<close>; a call without \<^verbatim>\<open>description\<close> is the call with \<open>None\<close>.\<close>

definition update ::
  "('x, 't) externals \<Rightarrow> 's Session \<Rightarrow> ('x, 't) Attribute \<Rightarrow> string option \<Rightarrow> 's
     \<Rightarrow> (error + ('x, 't) Attribute) \<times> 's" where
  "update E session attribute description s =
     (let updates = JDict [(''description'', optional_str description)]
      in case session_put session (url_str E (attribute_url attribute)) updates s of (r, s') \<Rightarrow>
         if status_code r = 404
         then (Inl (AttributeNotFound (url_str E (attribute_url attribute))), s')
         else case successful r of
                Inl e \<Rightarrow> (Inl e, s')
              | Inr r' \<Rightarrow> (priv_from_json E (attribute_url attribute) (json_body r'), s'))"

text \<open>\<^verbatim>\<open>delete\<close> returns nothing: the result is the unit value.\<close>

definition delete ::
  "('x, 't) externals \<Rightarrow> 's Session \<Rightarrow> ('x, 't) Attribute \<Rightarrow> 's \<Rightarrow> (error + unit) \<times> 's" where
  "delete E session attribute s =
     (case session_delete session (url_str E (attribute_url attribute)) s of (r, s') \<Rightarrow>
        if status_code r = 404
        then (Inl (AttributeNotFound (url_str E (attribute_url attribute))), s')
        else case successful r of
               Inl e \<Rightarrow> (Inl e, s')
             | Inr r' \<Rightarrow> (Inr (), s'))"

subsection \<open>Test doubles\<close>

text \<open>
  A session that writes down every request it is asked to make, in front of any other
  session: the state is paired with the list of requests issued so far.
\<close>

datatype request =
    GET string
  | POST string json
  | PUT string json
  | DELETE string

definition recording :: "'s Session \<Rightarrow> ('s \<times> request list) Session" where
  "recording session =
     \<lparr>session_get = (\<lambda>u (s, log).
        case session_get session u s of (r, s') \<Rightarrow> (r, (s', log @ [GET u]))),
      session_post = (\<lambda>u b (s, log).
        case session_post session u b s of (r, s') \<Rightarrow> (r, (s', log @ [POST u b]))),
      session_put = (\<lambda>u b (s, log).
        case session_put session u b s of (r, s') \<Rightarrow> (r, (s', log @ [PUT u b]))),
      session_delete = (\<lambda>u (s, log).
        case session_delete session u s of (r, s') \<Rightarrow> (r, (s', log @ [DELETE u])))\<rparr>"

text \<open>A session that answers every request with the same response and counts the calls.\<close>

definition counting_session :: "Response \<Rightarrow> nat Session" where
  "counting_session r =
     \<lparr>session_get = (\<lambda>u n. (r, Suc n)),
      session_post = (\<lambda>u b n. (r, Suc n)),
      session_put = (\<lambda>u b n. (r, Suc n)),
      session_delete = (\<lambda>u n. (r, Suc n))\<rparr>"

text \<open>
  Stand-ins for the imported functions: a URL is printed as its path, an attribute type is
  the name of a primitive type, serialized as \<^verbatim>\<open>{"baseType": name}\<close>.
\<close>

definition fake_type_from_json :: "json \<Rightarrow> error + string" where
  "fake_type_from_json v =
     (case getitem v ''baseType'' of
        Inl e \<Rightarrow> Inl e
      | Inr b \<Rightarrow> (case b of JStr s \<Rightarrow> Inr s | _ \<Rightarrow> Inl TypeError))"

definition fake_externals :: "(unit, string) externals" where
  "fake_externals =
     \<lparr>url_str = path,
      type_from_json = fake_type_from_json,
      type_to_json = (\<lambda>t. JDict [(''baseType'', JStr t)]),
      render = (\<lambda>v. ''?'')\<rparr>"

definition dataset7 :: "unit Dataset" where
  "dataset7 = \<lparr>dataset_url = \<lparr>path = ''/datasets/7''\<rparr>\<rparr>"

definition payload :: "string \<Rightarrow> string \<Rightarrow> bool \<Rightarrow> (string \<times> json) list" where
  "payload name ty is_nullable =
     [(''name'', JStr name), (''type'', JDict [(''baseType'', JStr ty)]),
      (''isNullable'', JBool is_nullable)]"

definition attribute_a :: "(unit, string) Attribute" where
  "attribute_a =
     \<lparr>attribute_url = \<lparr>path = ''/datasets/7/attributes/a''\<rparr>,
      attribute_name = JStr ''a'',
      attribute_type = ''STRING'',
      attribute_is_nullable = JBool True,
      attribute_json = JDict (payload ''a'' ''STRING'' True),
      attribute_description = JNull\<rparr>"

definition attribute_b :: "(unit, string) Attribute" where
  "attribute_b =
     \<lparr>attribute_url = \<lparr>path = ''/datasets/7/attributes/b''\<rparr>,
      attribute_name = JStr ''b'',
      attribute_type = ''INT'',
      attribute_is_nullable = JBool False,
      attribute_json = JDict (payload ''b'' ''INT'' False),
      attribute_description = JNull\<rparr>"

section \<open>Serialization\<close>

lemma getitem_JDict:
  "getitem (JDict d) k = (case map_of d k of None \<Rightarrow> Inl (KeyError k) | Some x \<Rightarrow> Inr x)"
  by (simp add: getitem_def)

lemma dict_get_JDict:
  "dict_get (JDict d) k = (case map_of d k of None \<Rightarrow> Inr JNull | Some x \<Rightarrow> Inr x)"
  by (simp add: dict_get_def)

lemma priv_from_json_JDict:
  "priv_from_json E u (JDict cp) =
     (case map_of cp ''name'' of None \<Rightarrow> Inl (KeyError ''name'') | Some n \<Rightarrow>
      case map_of cp ''isNullable'' of None \<Rightarrow> Inl (KeyError ''isNullable'') | Some b \<Rightarrow>
      case map_of cp ''type'' of None \<Rightarrow> Inl (KeyError ''type'') | Some tj \<Rightarrow>
      case type_from_json E tj of Inl e \<Rightarrow> Inl e | Inr ty \<Rightarrow>
        Inr \<lparr>attribute_url = u, attribute_name = n, attribute_type = ty,
             attribute_is_nullable = b, attribute_json = JDict cp,
             attribute_description =
               (case map_of cp ''description'' of None \<Rightarrow> JNull | Some v \<Rightarrow> v)\<rparr>)"
  by (simp add: priv_from_json_def getitem_JDict dict_get_JDict
           split: option.splits sum.splits)

lemma priv_from_json_url:
  "priv_from_json E u data = Inr a \<Longrightarrow> attribute_url a = u"
  by (auto simp: priv_from_json_def split: sum.splits)

text \<open>
  C4. Deserializing the serialization of an attribute \<open>a\<close> at a URL \<open>u\<close> succeeds and gives
  an attribute with the name, type, nullability and description of \<open>a\<close> (a description
  \<open>None\<close> included) and with the URL \<open>u\<close>, provided the serialization of the attribute's
  type reads back as that type.
\<close>

theorem from_json_to_json_roundtrip:
  fixes E :: "('x, 't) externals" and a :: "('x, 't) Attribute" and u :: "'x URL_scheme"
  assumes "type_from_json E (type_to_json E (attribute_type a)) = Inr (attribute_type a)"
  shows "\<exists>a'. priv_from_json E u (to_json E a) = Inr a'
           \<and> attribute_name a' = attribute_name a
           \<and> attribute_type a' = attribute_type a
           \<and> attribute_is_nullable a' = attribute_is_nullable a
           \<and> attribute_description a' = attribute_description a
           \<and> attribute_url a' = u"
proof (cases "attribute_description a = JNull")
  case True
  with assms show ?thesis
    by (simp add: to_json_def priv_from_json_JDict)
next
  case False
  with assms show ?thesis
    by (simp add: to_json_def priv_from_json_JDict)
qed

theorem from_json_to_json_roundtrip_witness:
  "type_from_json fake_externals (type_to_json fake_externals (attribute_type attribute_a))
     = Inr (attribute_type attribute_a)
   \<and> (\<exists>a'. priv_from_json fake_externals \<lparr>path = ''/elsewhere''\<rparr>
               (to_json fake_externals attribute_a) = Inr a'
          \<and> attribute_name a' = JStr ''a''
          \<and> attribute_type a' = ''STRING''
          \<and> attribute_is_nullable a' = JBool True
          \<and> attribute_description a' = JNull
          \<and> attribute_url a' = \<lparr>path = ''/elsewhere''\<rparr>)"
proof -
  have h: "type_from_json fake_externals
             (type_to_json fake_externals (attribute_type attribute_a))
             = Inr (attribute_type attribute_a)"
    by (simp add: fake_externals_def fake_type_from_json_def getitem_JDict)
  from from_json_to_json_roundtrip [OF h, of "\<lparr>path = ''/elsewhere''\<rparr>"] h
  show ?thesis
    by (simp add: attribute_a_def)
qed

text \<open>
  C7. For a JSON object \<open>cp\<close> and any URL: when the key \<^verbatim>\<open>description\<close> is absent and the
  three other keys are there (with a type that deserializes), deserialization succeeds with
  description \<open>None\<close>, and every attribute deserialized from an object without the key has
  description \<open>None\<close>; when the key \<^verbatim>\<open>isNullable\<close> is absent, deserialization raises
  \<open>KeyError\<close> (for \<^verbatim>\<open>name\<close> if that is missing too, since it is read first) and gives no
  attribute.
\<close>

theorem from_json_optional_and_required_keys:
  fixes E :: "('x, 't) externals" and u :: "'x URL_scheme"
  shows "(map_of cp ''description'' = None \<and> map_of cp ''name'' = Some n
            \<and> map_of cp ''isNullable'' = Some b \<and> map_of cp ''type'' = Some tj
            \<and> type_from_json E tj = Inr ty
          \<longrightarrow> (\<exists>a. priv_from_json E u (JDict cp) = Inr a \<and> attribute_description a = JNull))
       \<and> (map_of cp ''description'' = None \<and> priv_from_json E u (JDict cp) = Inr a'
          \<longrightarrow> attribute_description a' = JNull)
       \<and> (map_of cp ''isNullable'' = None
          \<longrightarrow> priv_from_json E u (JDict cp)
                = Inl (KeyError (if map_of cp ''name'' = None then ''name''
                                 else ''isNullable'')))"
  by (auto simp: priv_from_json_JDict split: option.splits sum.splits)

theorem from_json_optional_and_required_keys_witness:
  "(\<exists>a. priv_from_json fake_externals \<lparr>path = ''/p''\<rparr> (JDict (payload ''a'' ''INT'' False))
          = Inr a
        \<and> attribute_description a = JNull)
   \<and> priv_from_json fake_externals \<lparr>path = ''/p''\<rparr>
        (JDict [(''name'', JStr ''a''), (''type'', JDict [(''baseType'', JStr ''INT'')])])
       = (Inl (KeyError ''isNullable'') :: error + (unit, string) Attribute)"
  using from_json_optional_and_required_keys
          [where cp = "payload ''a'' ''INT'' False" and n = "JStr ''a''" and b = "JBool False"
             and tj = "JDict [(''baseType'', JStr ''INT'')]" and E = fake_externals
             and ty = "''INT''" and u = "\<lparr>path = ''/p''\<rparr>"]
        from_json_optional_and_required_keys
          [where cp = "[(''name'', JStr ''a''), (''type'', JDict [(''baseType'', JStr ''INT'')])]"
             and E = fake_externals and u = "\<lparr>path = ''/p''\<rparr>"]
  by (simp add: payload_def fake_externals_def fake_type_from_json_def getitem_JDict)

text \<open>
  C8. The serialization of an attribute is a JSON object that has the key
  \<^verbatim>\<open>description\<close> exactly when the attribute's description is not \<open>None\<close>; the key then
  holds the description (an empty string as well), and is missing, not bound to null,
  otherwise. The keys \<^verbatim>\<open>name\<close>, \<^verbatim>\<open>type\<close> and \<^verbatim>\<open>isNullable\<close> are always there.
\<close>

theorem to_json_description_key:
  fixes E :: "('x, 't) externals" and a :: "('x, 't) Attribute"
  shows "\<exists>d. to_json E a = JDict d
           \<and> (''description'' \<in> fst ` set d \<longleftrightarrow> attribute_description a \<noteq> JNull)
           \<and> (attribute_description a \<noteq> JNull
                \<longrightarrow> map_of d ''description'' = Some (attribute_description a))
           \<and> (attribute_description a = JNull \<longrightarrow> map_of d ''description'' = None)
           \<and> map_of d ''name'' = Some (attribute_name a)
           \<and> map_of d ''type'' = Some (type_to_json E (attribute_type a))
           \<and> map_of d ''isNullable'' = Some (attribute_is_nullable a)"
  by (cases "attribute_description a = JNull") (simp_all add: to_json_def)

theorem to_json_description_key_witness:
  "(\<exists>d. to_json fake_externals (attribute_a\<lparr>attribute_description := JStr []\<rparr>) = JDict d
        \<and> ''description'' \<in> fst ` set d
        \<and> map_of d ''description'' = Some (JStr []))
   \<and> (\<exists>d. to_json fake_externals attribute_a = JDict d
        \<and> ''description'' \<notin> fst ` set d
        \<and> map_of d ''description'' = None)"
  using to_json_description_key
          [of fake_externals "attribute_a\<lparr>attribute_description := JStr []\<rparr>"]
        to_json_description_key [of fake_externals attribute_a]
  by (auto simp: attribute_a_def)

section \<open>Status codes of the item operations\<close>

lemma priv_from_url_cases:
  assumes "session_get session (url_str E url) s = (r, s')"
  shows "priv_from_url E session url s =
           (if status_code r = 404 then Inl (AttributeNotFound (url_str E url))
            else if 200 \<le> status_code r \<and> status_code r < 300
                 then priv_from_json E url (json_body r)
                 else Inl (HTTPError (status_code r)), s')"
  using assms by (simp add: priv_from_url_def successful_def)

lemma update_cases:
  assumes "session_put session (url_str E (attribute_url attribute))
             (JDict [(''description'', optional_str description)]) s = (r, s')"
  shows "update E session attribute description s =
           (if status_code r = 404
            then Inl (AttributeNotFound (url_str E (attribute_url attribute)))
            else if 200 \<le> status_code r \<and> status_code r < 300
                 then priv_from_json E (attribute_url attribute) (json_body r)
                 else Inl (HTTPError (status_code r)), s')"
  using assms by (simp add: update_def successful_def)

lemma delete_cases:
  assumes "session_delete session (url_str E (attribute_url attribute)) s = (r, s')"
  shows "delete E session attribute s =
           (if status_code r = 404
            then Inl (AttributeNotFound (url_str E (attribute_url attribute)))
            else if 200 \<le> status_code r \<and> status_code r < 300
                 then Inr ()
                 else Inl (HTTPError (status_code r)), s')"
  using assms by (simp add: delete_def successful_def)

text \<open>
  C1. Let \<open>rg\<close>, \<open>rp\<close> and \<open>rd\<close> be the server's responses to the GET of
  \<^verbatim>\<open>from_resource_id\<close> (at the dataset's URL with \<^verbatim>\<open>/attributes/\<close> and the id appended to
  its path), to the PUT of \<^verbatim>\<open>update\<close> and to the DELETE of \<^verbatim>\<open>delete\<close> (both at the
  attribute's URL). For each of the three operations: status 404 raises
  \<open>AttributeNotFound\<close> with the string of exactly that URL; any other status outside
  200..299 raises the transport failure; a status in 200..299 makes fetch and update return
  the deserialization of the response body at that URL, and makes delete return nothing.
\<close>

theorem item_operations_by_status:
  fixes E :: "('x, 't) externals" and session :: "'s Session"
    and dataset :: "('x, 'y) Dataset_scheme" and attribute :: "('x, 't) Attribute"
  assumes url: "url = (dataset_url dataset)
                        \<lparr>path := path (dataset_url dataset) @ ''/attributes/'' @ rid\<rparr>"
    and get: "session_get session (url_str E url) s = (rg, sg)"
    and put: "session_put session (url_str E (attribute_url attribute))
                (JDict [(''description'', optional_str description)]) s = (rp, sp)"
    and del: "session_delete session (url_str E (attribute_url attribute)) s = (rd, sd)"
  shows
    "(status_code rg = 404 \<longrightarrow>
        from_resource_id E session dataset rid s
          = (Inl (AttributeNotFound (url_str E url)), sg))
   \<and> (status_code rg \<noteq> 404 \<and> \<not> (200 \<le> status_code rg \<and> status_code rg < 300) \<longrightarrow>
        from_resource_id E session dataset rid s = (Inl (HTTPError (status_code rg)), sg))
   \<and> (200 \<le> status_code rg \<and> status_code rg < 300 \<longrightarrow>
        from_resource_id E session dataset rid s
          = (priv_from_json E url (json_body rg), sg))
   \<and> (status_code rp = 404 \<longrightarrow>
        update E session attribute description s
          = (Inl (AttributeNotFound (url_str E (attribute_url attribute))), sp))
   \<and> (status_code rp \<noteq> 404 \<and> \<not> (200 \<le> status_code rp \<and> status_code rp < 300) \<longrightarrow>
        update E session attribute description s = (Inl (HTTPError (status_code rp)), sp))
   \<and> (200 \<le> status_code rp \<and> status_code rp < 300 \<longrightarrow>
        update E session attribute description s
          = (priv_from_json E (attribute_url attribute) (json_body rp), sp))
   \<and> (status_code rd = 404 \<longrightarrow>
        delete E session attribute s
          = (Inl (AttributeNotFound (url_str E (attribute_url attribute))), sd))
   \<and> (status_code rd \<noteq> 404 \<and> \<not> (200 \<le> status_code rd \<and> status_code rd < 300) \<longrightarrow>
        delete E session attribute s = (Inl (HTTPError (status_code rd)), sd))
   \<and> (200 \<le> status_code rd \<and> status_code rd < 300 \<longrightarrow>
        delete E session attribute s = (Inr (), sd))"
proof -
  have fetch: "from_resource_id E session dataset rid s = priv_from_url E session url s"
    by (simp add: from_resource_id_def url)
  show ?thesis
    unfolding fetch priv_from_url_cases [OF get] update_cases [OF put] delete_cases [OF del]
    by simp
qed

text \<open>
  The three statuses 404, 500 and 200 on each operation, for the dataset \<^verbatim>\<open>/datasets/7\<close>,
  the id \<^verbatim>\<open>foo\<close> and the attribute at \<^verbatim>\<open>/datasets/7/attributes/a\<close>.
\<close>

theorem item_operations_by_status_witness:
  "from_resource_id fake_externals (counting_session \<lparr>status_code = 404, json_body = JNull\<rparr>)
      dataset7 ''foo'' 0
     = (Inl (AttributeNotFound ''/datasets/7/attributes/foo''), 1)
   \<and> update fake_externals (counting_session \<lparr>status_code = 404, json_body = JNull\<rparr>)
      attribute_a (Some ''d'') 0
     = (Inl (AttributeNotFound ''/datasets/7/attributes/a''), 1)
   \<and> delete fake_externals (counting_session \<lparr>status_code = 404, json_body = JNull\<rparr>)
      attribute_a 0
     = (Inl (AttributeNotFound ''/datasets/7/attributes/a''), 1)
   \<and> from_resource_id fake_externals (counting_session \<lparr>status_code = 500, json_body = JNull\<rparr>)
      dataset7 ''foo'' 0
     = (Inl (HTTPError 500), 1)
   \<and> update fake_externals (counting_session \<lparr>status_code = 500, json_body = JNull\<rparr>)
      attribute_a (Some ''d'') 0
     = (Inl (HTTPError 500), 1)
   \<and> delete fake_externals (counting_session \<lparr>status_code = 500, json_body = JNull\<rparr>)
      attribute_a 0
     = (Inl (HTTPError 500), 1)
   \<and> from_resource_id fake_externals
      (counting_session \<lparr>status_code = 200, json_body = JDict (payload ''foo'' ''INT'' False)\<rparr>)
      dataset7 ''foo'' 0
     = (priv_from_json fake_externals \<lparr>path = ''/datasets/7/attributes/foo''\<rparr>
          (JDict (payload ''foo'' ''INT'' False)), 1)
   \<and> update fake_externals
      (counting_session \<lparr>status_code = 200, json_body = JDict (payload ''foo'' ''INT'' False)\<rparr>)
      attribute_a (Some ''d'') 0
     = (priv_from_json fake_externals \<lparr>path = ''/datasets/7/attributes/a''\<rparr>
          (JDict (payload ''foo'' ''INT'' False)), 1)
   \<and> delete fake_externals
      (counting_session \<lparr>status_code = 200, json_body = JDict (payload ''foo'' ''INT'' False)\<rparr>)
      attribute_a 0
     = (Inr (), 1)"
proof -
  have u: "\<lparr>path = ''/datasets/7/attributes/foo''\<rparr>
             = (dataset_url dataset7)\<lparr>path := path (dataset_url dataset7) @ ''/attributes/'' @ ''foo''\<rparr>"
    by (simp add: dataset7_def)
  have g: "session_get (counting_session r)
             (url_str fake_externals \<lparr>path = ''/datasets/7/attributes/foo''\<rparr>) 0 = (r, 1)"
    and p: "session_put (counting_session r)
             (url_str fake_externals (attribute_url attribute_a))
             (JDict [(''description'', optional_str (Some ''d''))]) 0 = (r, 1)"
    and d: "session_delete (counting_session r)
             (url_str fake_externals (attribute_url attribute_a)) 0 = (r, 1)" for r
    by (simp_all add: counting_session_def)
  have s: "url_str fake_externals = path"
    "attribute_url attribute_a = \<lparr>path = ''/datasets/7/attributes/a''\<rparr>"
    by (simp_all add: fake_externals_def attribute_a_def)
  from item_operations_by_status [OF u g p d, of "\<lparr>status_code = 404, json_body = JNull\<rparr>"]
       item_operations_by_status [OF u g p d, of "\<lparr>status_code = 500, json_body = JNull\<rparr>"]
       item_operations_by_status [OF u g p d,
         of "\<lparr>status_code = 200, json_body = JDict (payload ''foo'' ''INT'' False)\<rparr>"]
  show ?thesis
    by (simp add: s)
qed

section \<open>Creation\<close>

lemma create_body:
  "(case description of
      None \<Rightarrow> [(''name'', n), (''type'', t), (''isNullable'', b)]
    | Some d \<Rightarrow> AList.update ''description'' (JStr d)
                 [(''name'', n), (''type'', t), (''isNullable'', b)])
   = [(''name'', n), (''type'', t), (''isNullable'', b)]
       @ (case description of None \<Rightarrow> [] | Some d \<Rightarrow> [(''description'', JStr d)])"
  by (cases description) simp_all

lemma priv_create_cases:
  assumes "attrs_url = (dataset_url dataset)
                         \<lparr>path := path (dataset_url dataset) @ ''/attributes''\<rparr>"
    and "url = (dataset_url dataset)
                 \<lparr>path := path (dataset_url dataset) @ ''/attributes/'' @ name\<rparr>"
    and "body = JDict ([(''name'', JStr name), (''type'', type_to_json E ty),
                        (''isNullable'', JBool is_nullable)]
                       @ (case description of None \<Rightarrow> []
                          | Some d \<Rightarrow> [(''description'', JStr d)]))"
    and "session_post session (url_str E attrs_url) body s = (r, s')"
  shows "priv_create E session dataset name is_nullable ty description s =
           (if status_code r = 409 then Inl (AttributeExists (url_str E url))
            else if 200 \<le> status_code r \<and> status_code r < 300
                 then priv_from_json E url (json_body r)
                 else Inl (HTTPError (status_code r)), s')"
  using assms by (simp add: priv_create_def create_body successful_def)

lemma priv_create_recording:
  assumes "attrs_url = (dataset_url dataset)
                         \<lparr>path := path (dataset_url dataset) @ ''/attributes''\<rparr>"
    and "body = JDict ([(''name'', JStr name), (''type'', type_to_json E ty),
                        (''isNullable'', JBool is_nullable)]
                       @ (case description of None \<Rightarrow> []
                          | Some d \<Rightarrow> [(''description'', JStr d)]))"
  shows "snd (snd (priv_create E (recording session) dataset name is_nullable ty description
                     (s, log)))
           = log @ [POST (url_str E attrs_url) body]"
proof -
  obtain r s' where post: "session_post session (url_str E attrs_url) body s = (r, s')"
    by (cases "session_post session (url_str E attrs_url) body s")
  have "session_post (recording session) (url_str E attrs_url) body (s, log)
          = (r, (s', log @ [POST (url_str E attrs_url) body]))"
    by (simp add: recording_def post)
  from priv_create_cases [OF assms(1) refl assms(2) this] show ?thesis
    by simp
qed

text \<open>
  C2. Let \<open>r\<close> be the response to the POST that \<^verbatim>\<open>_create\<close> sends to the collection URL
  (the dataset's URL with \<^verbatim>\<open>/attributes\<close> appended to its path), and \<open>url\<close> the dataset's
  URL with \<^verbatim>\<open>/attributes/\<close> and the requested name appended. If the status of \<open>r\<close> is 409,
  \<^verbatim>\<open>_create\<close> raises \<open>AttributeExists\<close> with the string of \<open>url\<close>, and so does \<^verbatim>\<open>create\<close>
  for a name that is not reserved; no attribute is returned. Whenever \<^verbatim>\<open>_create\<close>
  returns an attribute, it is the deserialization of the body of \<open>r\<close> at \<open>url\<close>, and a
  status in 200..299 makes the result that deserialization.
\<close>

theorem create_conflict_and_success:
  fixes E :: "('x, 't) externals" and session :: "'s Session"
    and dataset :: "('x, 'y) Dataset_scheme"
  assumes attrs_url: "attrs_url = (dataset_url dataset)
                         \<lparr>path := path (dataset_url dataset) @ ''/attributes''\<rparr>"
    and url: "url = (dataset_url dataset)
                 \<lparr>path := path (dataset_url dataset) @ ''/attributes/'' @ name\<rparr>"
    and body: "body = JDict ([(''name'', JStr name), (''type'', type_to_json E ty),
                        (''isNullable'', JBool is_nullable)]
                       @ (case description of None \<Rightarrow> []
                          | Some d \<Rightarrow> [(''description'', JStr d)]))"
    and post: "session_post session (url_str E attrs_url) body s = (r, s')"
  shows
    "(status_code r = 409 \<longrightarrow>
        priv_create E session dataset name is_nullable ty description s
          = (Inl (AttributeExists (url_str E url)), s'))
   \<and> (status_code r = 409 \<and> name \<notin> RESERVED_NAMES \<longrightarrow>
        create E session dataset name is_nullable ty description s
          = (Inl (AttributeExists (url_str E url)), s'))
   \<and> (200 \<le> status_code r \<and> status_code r < 300 \<longrightarrow>
        priv_create E session dataset name is_nullable ty description s
          = (priv_from_json E url (json_body r), s'))
   \<and> (priv_create E session dataset name is_nullable ty description s = (Inr a, s'') \<longrightarrow>
        status_code r \<noteq> 409 \<and> priv_from_json E url (json_body r) = Inr a \<and> s'' = s')
   \<and> (create E session dataset name is_nullable ty description s = (Inr a, s'') \<longrightarrow>
        status_code r \<noteq> 409 \<and> priv_from_json E url (json_body r) = Inr a \<and> s'' = s')"
  unfolding create_def priv_create_cases [OF attrs_url url body post]
  by (simp split: if_splits)

text \<open>
  The name \<^verbatim>\<open>a\<close> on the dataset \<^verbatim>\<open>/datasets/7\<close>: a 409 gives the conflict at
  \<^verbatim>\<open>/datasets/7/attributes/a\<close>, a 201 gives the attribute read from the body, at that URL.
\<close>

theorem create_conflict_and_success_witness:
  "create fake_externals (counting_session \<lparr>status_code = 409, json_body = JNull\<rparr>)
      dataset7 ''a'' True ''STRING'' None 0
     = (Inl (AttributeExists ''/datasets/7/attributes/a''), 1)
   \<and> priv_create fake_externals (counting_session \<lparr>status_code = 409, json_body = JNull\<rparr>)
      dataset7 ''a'' True ''STRING'' None 0
     = (Inl (AttributeExists ''/datasets/7/attributes/a''), 1)
   \<and> priv_create fake_externals
      (counting_session \<lparr>status_code = 201, json_body = JDict (payload ''a'' ''STRING'' True)\<rparr>)
      dataset7 ''a'' True ''STRING'' None 0
     = (Inr attribute_a, 1)"
proof -
  have p: "session_post (counting_session r)
             (url_str fake_externals
                ((dataset_url dataset7)\<lparr>path := path (dataset_url dataset7) @ ''/attributes''\<rparr>))
             (JDict ([(''name'', JStr ''a''), (''type'', type_to_json fake_externals ''STRING''),
                      (''isNullable'', JBool True)]
                     @ (case None of None \<Rightarrow> [] | Some d \<Rightarrow> [(''description'', JStr d)])))
             0 = (r, 1)" for r
    by (simp add: counting_session_def)
  have n: "''a'' \<notin> RESERVED_NAMES"
    by (simp add: RESERVED_NAMES_def)
  have u: "(dataset_url dataset7)\<lparr>path := path (dataset_url dataset7) @ ''/attributes/'' @ ''a''\<rparr>
             = \<lparr>path = ''/datasets/7/attributes/a''\<rparr>"
    by (simp add: dataset7_def)
  have str: "url_str fake_externals \<lparr>path = ''/datasets/7/attributes/a''\<rparr>
               = ''/datasets/7/attributes/a''"
    by (simp add: fake_externals_def)
  have d: "priv_from_json fake_externals \<lparr>path = ''/datasets/7/attributes/a''\<rparr>
             (JDict (payload ''a'' ''STRING'' True)) = Inr attribute_a"
    by (simp add: priv_from_json_JDict payload_def attribute_a_def fake_externals_def
          fake_type_from_json_def getitem_JDict)
  note c = create_conflict_and_success
             [OF refl refl refl p, where a = attribute_a and s'' = 1, unfolded u]
  have c409: "status_code \<lparr>status_code = 409, json_body = JNull\<rparr> = 409"
    and c201: "200 \<le> status_code
                  \<lparr>status_code = 201, json_body = JDict (payload ''a'' ''STRING'' True)\<rparr>
               \<and> status_code
                  \<lparr>status_code = 201, json_body = JDict (payload ''a'' ''STRING'' True)\<rparr> < 300"
    and body: "json_body \<lparr>status_code = 201, json_body = JDict (payload ''a'' ''STRING'' True)\<rparr>
                 = JDict (payload ''a'' ''STRING'' True)"
    by simp_all
  have A: "create fake_externals (counting_session \<lparr>status_code = 409, json_body = JNull\<rparr>)
             dataset7 ''a'' True ''STRING'' None 0
           = (Inl (AttributeExists ''/datasets/7/attributes/a''), 1)"
    using c [of "\<lparr>status_code = 409, json_body = JNull\<rparr>"] c409 n
    unfolding str by blast
  have B: "priv_create fake_externals (counting_session \<lparr>status_code = 409, json_body = JNull\<rparr>)
             dataset7 ''a'' True ''STRING'' None 0
           = (Inl (AttributeExists ''/datasets/7/attributes/a''), 1)"
    using c [of "\<lparr>status_code = 409, json_body = JNull\<rparr>"] c409
    unfolding str by blast
  have C: "priv_create fake_externals
             (counting_session
                \<lparr>status_code = 201, json_body = JDict (payload ''a'' ''STRING'' True)\<rparr>)
             dataset7 ''a'' True ''STRING'' None 0
           = (Inr attribute_a, 1)"
    using c [of "\<lparr>status_code = 201, json_body = JDict (payload ''a'' ''STRING'' True)\<rparr>"]
          c201
    unfolding body d by blast
  from A B C show ?thesis
    by blast
qed

text \<open>
  C3. For a name of the reserved set, \<^verbatim>\<open>create\<close> raises \<open>ReservedAttributeName\<close> with
  that name and leaves the state behind the session as it was, for every session; in
  front of a recording session the list of requests is unchanged, so none was issued. For
  a name outside the set, \<^verbatim>\<open>create\<close> goes on to \<^verbatim>\<open>_create\<close>, and the recording session has
  one more request: the POST of the body to the collection URL.
\<close>

theorem create_reserved_name_guard:
  fixes E :: "('x, 't) externals" and session :: "'s Session"
    and dataset :: "('x, 'y) Dataset_scheme"
  assumes attrs_url: "attrs_url = (dataset_url dataset)
                         \<lparr>path := path (dataset_url dataset) @ ''/attributes''\<rparr>"
    and body: "body = JDict ([(''name'', JStr name), (''type'', type_to_json E ty),
                        (''isNullable'', JBool is_nullable)]
                       @ (case description of None \<Rightarrow> []
                          | Some d \<Rightarrow> [(''description'', JStr d)]))"
  shows
    "(name \<in> RESERVED_NAMES \<longrightarrow>
        create E session dataset name is_nullable ty description s
          = (Inl (ReservedAttributeName name), s)
      \<and> create E (recording session) dataset name is_nullable ty description (s, log)
          = (Inl (ReservedAttributeName name), (s, log)))
   \<and> (name \<notin> RESERVED_NAMES \<longrightarrow>
        create E session dataset name is_nullable ty description s
          = priv_create E session dataset name is_nullable ty description s
      \<and> snd (snd (create E (recording session) dataset name is_nullable ty description
                     (s, log)))
          = log @ [POST (url_str E attrs_url) body])"
  using priv_create_recording [OF attrs_url body, of session s log]
  by (simp add: create_def)

text \<open>
  The reserved name \<^verbatim>\<open>tamr_id\<close>: the counter of calls stays at 0 and nothing is recorded.
  The name \<^verbatim>\<open>a\<close>: one POST to \<^verbatim>\<open>/datasets/7/attributes\<close> is recorded.
\<close>

theorem create_reserved_name_guard_witness:
  "create fake_externals (counting_session \<lparr>status_code = 201, json_body = JNull\<rparr>)
      dataset7 ''tamr_id'' True ''STRING'' None 0
     = (Inl (ReservedAttributeName ''tamr_id''), 0)
   \<and> create fake_externals (recording (counting_session \<lparr>status_code = 201, json_body = JNull\<rparr>))
      dataset7 ''tamr_id'' True ''STRING'' None (0, [])
     = (Inl (ReservedAttributeName ''tamr_id''), (0, []))
   \<and> snd (snd (create fake_externals
                  (recording (counting_session \<lparr>status_code = 201, json_body = JNull\<rparr>))
                  dataset7 ''a'' True ''STRING'' (Some ''text'') (0, [])))
     = [POST ''/datasets/7/attributes''
          (JDict [(''name'', JStr ''a''), (''type'', JDict [(''baseType'', JStr ''STRING'')]),
                  (''isNullable'', JBool True), (''description'', JStr ''text'')])]"
proof -
  have r: "''tamr_id'' \<in> RESERVED_NAMES" and n: "''a'' \<notin> RESERVED_NAMES"
    by (simp_all add: RESERVED_NAMES_def)
  from create_reserved_name_guard [OF refl refl,
         where name = "''tamr_id''" and E = fake_externals and dataset = dataset7
           and session = "counting_session \<lparr>status_code = 201, json_body = JNull\<rparr>"
           and is_nullable = True and ty = "''STRING''" and description = None
           and s = 0 and log = "[]"]
       create_reserved_name_guard [OF refl refl,
         where name = "''a''" and E = fake_externals and dataset = dataset7
           and session = "counting_session \<lparr>status_code = 201, json_body = JNull\<rparr>"
           and is_nullable = True and ty = "''STRING''" and description = "Some ''text''"
           and s = 0 and log = "[]"]
       r n
  show ?thesis
    by (simp add: dataset7_def fake_externals_def)
qed

text \<open>
  C9. For a name outside the reserved set, \<^verbatim>\<open>create\<close> and \<^verbatim>\<open>_create\<close> are the same
  function of session, dataset and arguments: the same result and the same state behind
  the session, hence, in front of a recording session, the same requests. \<^verbatim>\<open>_create\<close>
  itself never looks at the reserved set: for every name, reserved or not, it issues the
  POST of the body to the collection URL.
\<close>

theorem create_equals_priv_create:
  fixes E :: "('x, 't) externals" and session :: "'s Session"
    and dataset :: "('x, 'y) Dataset_scheme"
  assumes attrs_url: "attrs_url = (dataset_url dataset)
                         \<lparr>path := path (dataset_url dataset) @ ''/attributes''\<rparr>"
    and body: "body = JDict ([(''name'', JStr name), (''type'', type_to_json E ty),
                        (''isNullable'', JBool is_nullable)]
                       @ (case description of None \<Rightarrow> []
                          | Some d \<Rightarrow> [(''description'', JStr d)]))"
  shows
    "(name \<notin> RESERVED_NAMES \<longrightarrow>
        create E session dataset name is_nullable ty description s
          = priv_create E session dataset name is_nullable ty description s
      \<and> create E (recording session) dataset name is_nullable ty description (s, log)
          = priv_create E (recording session) dataset name is_nullable ty description (s, log))
   \<and> snd (snd (priv_create E (recording session) dataset name is_nullable ty description
                  (s, log)))
       = log @ [POST (url_str E attrs_url) body]"
  using priv_create_recording [OF attrs_url body, of session s log]
  by (simp add: create_def)

text \<open>
  The name \<^verbatim>\<open>a\<close> gives the same outcome on both paths; the reserved name \<^verbatim>\<open>tamr_id\<close> is
  posted by \<^verbatim>\<open>_create\<close>.
\<close>

theorem create_equals_priv_create_witness:
  "create fake_externals
      (recording (counting_session
         \<lparr>status_code = 201, json_body = JDict (payload ''a'' ''STRING'' True)\<rparr>))
      dataset7 ''a'' True ''STRING'' None (0, [])
     = priv_create fake_externals
         (recording (counting_session
            \<lparr>status_code = 201, json_body = JDict (payload ''a'' ''STRING'' True)\<rparr>))
         dataset7 ''a'' True ''STRING'' None (0, [])
   \<and> snd (snd (priv_create fake_externals
                  (recording (counting_session \<lparr>status_code = 201, json_body = JNull\<rparr>))
                  dataset7 ''tamr_id'' True ''STRING'' None (0, [])))
     = [POST ''/datasets/7/attributes''
          (JDict [(''name'', JStr ''tamr_id''),
                  (''type'', JDict [(''baseType'', JStr ''STRING'')]),
                  (''isNullable'', JBool True)])]"
proof -
  have n: "''a'' \<notin> RESERVED_NAMES"
    by (simp add: RESERVED_NAMES_def)
  from create_equals_priv_create [OF refl refl,
         where name = "''a''" and E = fake_externals and dataset = dataset7
           and session = "counting_session
              \<lparr>status_code = 201, json_body = JDict (payload ''a'' ''STRING'' True)\<rparr>"
           and is_nullable = True and ty = "''STRING''" and description = None
           and s = 0 and log = "[]"]
       create_equals_priv_create [OF refl refl,
         where name = "''tamr_id''" and E = fake_externals and dataset = dataset7
           and session = "counting_session \<lparr>status_code = 201, json_body = JNull\<rparr>"
           and is_nullable = True and ty = "''STRING''" and description = None
           and s = 0 and log = "[]"]
       n
  show ?thesis
    by (simp add: dataset7_def fake_externals_def)
qed

section \<open>Update\<close>

lemma priv_from_json_fields:
  assumes "priv_from_json E u data = Inr a"
  shows "getitem data ''name'' = Inr (attribute_name a)"
    and "getitem data ''isNullable'' = Inr (attribute_is_nullable a)"
    and "\<exists>tj. getitem data ''type'' = Inr tj \<and> type_from_json E tj = Inr (attribute_type a)"
    and "dict_get data ''description'' = Inr (attribute_description a)"
    and "attribute_json a = data"
  using assms by (auto simp: priv_from_json_def split: sum.splits)

lemma update_recording:
  "snd (snd (update E (recording session) a description (s, log)))
     = log @ [PUT (url_str E (attribute_url a))
                (JDict [(''description'', optional_str description)])]"
proof -
  obtain r s' where put: "session_put session (url_str E (attribute_url a))
                            (JDict [(''description'', optional_str description)]) s = (r, s')"
    by (cases "session_put session (url_str E (attribute_url a))
                 (JDict [(''description'', optional_str description)]) s")
  have "session_put (recording session) (url_str E (attribute_url a))
          (JDict [(''description'', optional_str description)]) (s, log)
        = (r, (s', log @ [PUT (url_str E (attribute_url a))
                            (JDict [(''description'', optional_str description)])]))"
    by (simp add: recording_def put)
  from update_cases [OF this] show ?thesis
    by simp
qed

text \<open>
  C10. The request of \<^verbatim>\<open>update\<close> is one PUT, to the string of the attribute's URL, with
  the body \<^verbatim>\<open>{"description": d}\<close> for the argument \<open>d\<close> and \<^verbatim>\<open>{"description": null}\<close> when the
  argument is left out (\<open>None\<close>), whatever description the attribute has. Two attributes
  with the same URL give the same outcome of \<^verbatim>\<open>update\<close>: no other field is looked at.
\<close>

theorem update_request_from_description_only:
  fixes E :: "('x, 't) externals" and session :: "'s Session"
    and a :: "('x, 't) Attribute" and a' :: "('x, 't) Attribute"
  shows
    "(attribute_url a = attribute_url a' \<longrightarrow>
        update E session a description s = update E session a' description s)
   \<and> snd (snd (update E (recording session) a description (s, log)))
       = log @ [PUT (url_str E (attribute_url a))
                  (JDict [(''description'',
                           case description of None \<Rightarrow> JNull | Some d \<Rightarrow> JStr d)])]
   \<and> snd (snd (update E (recording session) a None (s, log)))
       = log @ [PUT (url_str E (attribute_url a)) (JDict [(''description'', JNull)])]"
proof -
  have "update E session a description s = update E session a' description s"
    if "attribute_url a = attribute_url a'"
    unfolding update_def that by (rule refl)
  moreover have "optional_str description
                   = (case description of None \<Rightarrow> JNull | Some d \<Rightarrow> JStr d)"
    and "optional_str None = JNull"
    by (simp_all add: optional_str_def)
  ultimately show ?thesis
    using update_recording [of E session a description s log]
          update_recording [of E session a None s log]
    by simp
qed

text \<open>
  An attribute described as \<^verbatim>\<open>old\<close>, updated without a description: the body sent is
  \<^verbatim>\<open>{"description": null}\<close>. The attribute \<^verbatim>\<open>a\<close> with another name, type and description
  gives the same outcome.
\<close>

theorem update_request_from_description_only_witness:
  "update fake_externals
      (counting_session \<lparr>status_code = 200, json_body = JDict (payload ''a'' ''STRING'' True)\<rparr>)
      attribute_a (Some ''new'') 0
     = update fake_externals
         (counting_session \<lparr>status_code = 200, json_body = JDict (payload ''a'' ''STRING'' True)\<rparr>)
         (attribute_a\<lparr>attribute_name := JStr ''z'', attribute_type := ''INT'',
                      attribute_description := JStr ''old''\<rparr>) (Some ''new'') 0
   \<and> snd (snd (update fake_externals
                  (recording (counting_session \<lparr>status_code = 200, json_body = JNull\<rparr>))
                  (attribute_a\<lparr>attribute_description := JStr ''old''\<rparr>) None (0, [])))
     = [PUT ''/datasets/7/attributes/a'' (JDict [(''description'', JNull)])]"
proof -
  have u: "attribute_url attribute_a
             = attribute_url (attribute_a\<lparr>attribute_name := JStr ''z'', attribute_type := ''INT'',
                                          attribute_description := JStr ''old''\<rparr>)"
    by simp
  have str: "url_str fake_externals
               (attribute_url (attribute_a\<lparr>attribute_description := JStr ''old''\<rparr>))
             = ''/datasets/7/attributes/a''"
    by (simp add: fake_externals_def attribute_a_def)
  note t1 = update_request_from_description_only
              [where a = attribute_a
                 and a' = "attribute_a\<lparr>attribute_name := JStr ''z'', attribute_type := ''INT'',
                                       attribute_description := JStr ''old''\<rparr>"
                 and E = fake_externals and description = "Some ''new''" and s = 0
                 and session = "counting_session
                    \<lparr>status_code = 200, json_body = JDict (payload ''a'' ''STRING'' True)\<rparr>"]
  note t2 = update_request_from_description_only
              [where a = "attribute_a\<lparr>attribute_description := JStr ''old''\<rparr>"
                 and E = fake_externals and s = 0 and log = "[]"
                 and session = "counting_session \<lparr>status_code = 200, json_body = JNull\<rparr>",
               unfolded str]
  from t1 u have A: "update fake_externals
      (counting_session \<lparr>status_code = 200, json_body = JDict (payload ''a'' ''STRING'' True)\<rparr>)
      attribute_a (Some ''new'') 0
     = update fake_externals
         (counting_session \<lparr>status_code = 200, json_body = JDict (payload ''a'' ''STRING'' True)\<rparr>)
         (attribute_a\<lparr>attribute_name := JStr ''z'', attribute_type := ''INT'',
                      attribute_description := JStr ''old''\<rparr>) (Some ''new'') 0"
    by blast
  from t2 have B: "snd (snd (update fake_externals
                  (recording (counting_session \<lparr>status_code = 200, json_body = JNull\<rparr>))
                  (attribute_a\<lparr>attribute_description := JStr ''old''\<rparr>) None (0, [])))
     = [PUT ''/datasets/7/attributes/a'' (JDict [(''description'', JNull)])]"
    by simp
  from A B show ?thesis
    by blast
qed

text \<open>
  C5, as the code has it. A successful \<^verbatim>\<open>update\<close> returns the deserialization of the
  server's response body at the URL of the input attribute. So the URL is that of the
  input, while name, nullability, type and description are the ones the response body
  carries: they are those of the input attribute when, and only when, the server sends
  them back.
\<close>

theorem update_returns_response_at_same_url:
  fixes E :: "('x, 't) externals" and session :: "'s Session"
    and a :: "('x, 't) Attribute" and a' :: "('x, 't) Attribute"
  assumes put: "session_put session (url_str E (attribute_url a))
                  (JDict [(''description'', optional_str description)]) s = (r, s')"
    and ok: "update E session a description s = (Inr a', s'')"
  shows "attribute_url a' = attribute_url a
       \<and> s'' = s'
       \<and> priv_from_json E (attribute_url a) (json_body r) = Inr a'
       \<and> getitem (json_body r) ''name'' = Inr (attribute_name a')
       \<and> getitem (json_body r) ''isNullable'' = Inr (attribute_is_nullable a')
       \<and> (\<exists>tj. getitem (json_body r) ''type'' = Inr tj
                \<and> type_from_json E tj = Inr (attribute_type a'))
       \<and> dict_get (json_body r) ''description'' = Inr (attribute_description a')"
proof -
  from ok have d: "priv_from_json E (attribute_url a) (json_body r) = Inr a'" and s: "s'' = s'"
    unfolding update_cases [OF put] by (simp_all split: if_splits)
  from priv_from_json_url [OF d] priv_from_json_fields [OF d] d s show ?thesis
    by blast
qed

text \<open>
  A server that answers the PUT with the attribute as updated: the result keeps the URL
  and has the name, type and nullability of the body, the ones of the input here.
\<close>

theorem update_returns_response_at_same_url_witness:
  "update fake_externals
      (counting_session
         \<lparr>status_code = 200,
          json_body = JDict (payload ''a'' ''STRING'' True @ [(''description'', JStr ''new'')])\<rparr>)
      attribute_a (Some ''new'') 0
     = (Inr (attribute_a
               \<lparr>attribute_json :=
                  JDict (payload ''a'' ''STRING'' True @ [(''description'', JStr ''new'')]),
                attribute_description := JStr ''new''\<rparr>), 1)
   \<and> attribute_url (attribute_a
               \<lparr>attribute_json :=
                  JDict (payload ''a'' ''STRING'' True @ [(''description'', JStr ''new'')]),
                attribute_description := JStr ''new''\<rparr>) = attribute_url attribute_a
   \<and> getitem (JDict (payload ''a'' ''STRING'' True @ [(''description'', JStr ''new'')])) ''name''
       = Inr (attribute_name attribute_a)"
proof -
  let ?r = "\<lparr>status_code = 200,
             json_body = JDict (payload ''a'' ''STRING'' True @ [(''description'', JStr ''new'')])\<rparr>"
  let ?b = "attribute_a
               \<lparr>attribute_json :=
                  JDict (payload ''a'' ''STRING'' True @ [(''description'', JStr ''new'')]),
                attribute_description := JStr ''new''\<rparr>"
  have put: "session_put (counting_session ?r) (url_str fake_externals (attribute_url attribute_a))
               (JDict [(''description'', optional_str (Some ''new''))]) 0 = (?r, 1)"
    by (simp add: counting_session_def)
  have d: "priv_from_json fake_externals (attribute_url attribute_a) (json_body ?r) = Inr ?b"
    by (simp add: priv_from_json_JDict payload_def attribute_a_def fake_externals_def
          fake_type_from_json_def getitem_JDict)
  have ok: "update fake_externals (counting_session ?r) attribute_a (Some ''new'') 0 = (Inr ?b, 1)"
    unfolding update_cases [OF put] using d by simp
  from update_returns_response_at_same_url [OF put ok] ok show ?thesis
    by simp
qed

text \<open>
  C5, as the claim states it, fails: a server that answers the PUT on attribute \<^verbatim>\<open>a\<close>
  (type \<^verbatim>\<open>STRING\<close>, nullable) with status 200 and the body of an attribute \<^verbatim>\<open>b\<close> (type
  \<^verbatim>\<open>INT\<close>, not nullable) makes \<^verbatim>\<open>update\<close> return name, type and nullability of \<^verbatim>\<open>b\<close>.
\<close>

theorem update_frame_counterexample:
  "update fake_externals
      (counting_session \<lparr>status_code = 200, json_body = JDict (payload ''b'' ''INT'' False)\<rparr>)
      attribute_a (Some ''new'') 0
     = (Inr (attribute_b\<lparr>attribute_url := attribute_url attribute_a\<rparr>), 1)
   \<and> attribute_name (attribute_b\<lparr>attribute_url := attribute_url attribute_a\<rparr>)
       \<noteq> attribute_name attribute_a
   \<and> attribute_type (attribute_b\<lparr>attribute_url := attribute_url attribute_a\<rparr>)
       \<noteq> attribute_type attribute_a
   \<and> attribute_is_nullable (attribute_b\<lparr>attribute_url := attribute_url attribute_a\<rparr>)
       \<noteq> attribute_is_nullable attribute_a"
  by (simp add: update_def counting_session_def successful_def priv_from_json_JDict payload_def
        attribute_a_def attribute_b_def fake_externals_def fake_type_from_json_def
        getitem_JDict optional_str_def)

section \<open>All attributes of a dataset\<close>

lemma fmt_JStr: "fmt E (JStr nm) = nm"
  by (simp add: fmt_def)

text \<open>The accumulator of the loop only collects: it is a prefix of whatever is returned.\<close>

lemma attrs_loop_acc:
  "attrs_loop E u acc xs =
     (case attrs_loop E u [] xs of Inl e \<Rightarrow> Inl e | Inr ys \<Rightarrow> Inr (acc @ ys))"
proof (induction xs arbitrary: acc)
  case Nil
  show ?case by simp
next
  case (Cons x xs)
  show ?case
  proof (cases "getitem x ''name''")
    case (Inl e)
    then show ?thesis by simp
  next
    case name: (Inr rid)
    show ?thesis
    proof (cases "priv_from_json E (u\<lparr>path := path u @ ''/'' @ fmt E rid\<rparr>) x")
      case (Inl e)
      with name show ?thesis by simp
    next
      case attr: (Inr attr)
      have "attrs_loop E u (acc @ [attr]) xs =
              (case attrs_loop E u [] xs of Inl e \<Rightarrow> Inl e | Inr ys \<Rightarrow> Inr (acc @ attr # ys))"
        using Cons.IH [of "acc @ [attr]"] by (simp split: sum.splits)
      moreover have "attrs_loop E u [attr] xs =
              (case attrs_loop E u [] xs of Inl e \<Rightarrow> Inl e | Inr ys \<Rightarrow> Inr (attr # ys))"
        using Cons.IH [of "[attr]"] by (simp split: sum.splits)
      ultimately show ?thesis
        using name attr by (simp split: sum.splits)
    qed
  qed
qed

text \<open>
  The loop succeeds exactly when every element has a \<^verbatim>\<open>name\<close> and deserializes at the
  collection URL extended by that name; the result lists those attributes in order.
\<close>

lemma attrs_loop_Inr_iff:
  "attrs_loop E u [] xs = Inr ys \<longleftrightarrow>
     list_all2 (\<lambda>obj a. \<exists>n. getitem obj ''name'' = Inr n
                  \<and> priv_from_json E (u\<lparr>path := path u @ ''/'' @ fmt E n\<rparr>) obj = Inr a) xs ys"
proof (induction xs arbitrary: ys)
  case Nil
  show ?case by auto
next
  case (Cons x xs)
  show ?case
  proof (cases "getitem x ''name''")
    case (Inl e)
    then show ?thesis by (simp add: list_all2_Cons1)
  next
    case name: (Inr rid)
    show ?thesis
    proof (cases "priv_from_json E (u\<lparr>path := path u @ ''/'' @ fmt E rid\<rparr>) x")
      case (Inl e)
      with name show ?thesis by (simp add: list_all2_Cons1)
    next
      case attr: (Inr attr)
      have "attrs_loop E u [] (x # xs) =
              (case attrs_loop E u [] xs of Inl e \<Rightarrow> Inl e | Inr zs \<Rightarrow> Inr (attr # zs))"
        using name attr attrs_loop_acc [of E u "[attr]" xs] by (simp split: sum.splits)
      then have "attrs_loop E u [] (x # xs) = Inr ys \<longleftrightarrow>
                   (\<exists>zs. ys = attr # zs \<and> attrs_loop E u [] xs = Inr zs)"
        by (auto split: sum.splits)
      with Cons.IH name attr show ?thesis
        by (auto simp: list_all2_Cons1)
    qed
  qed
qed

text \<open>
  C6. Let \<open>attrs_url\<close> be the dataset's URL with \<^verbatim>\<open>/attributes\<close> appended to its path, and
  let the GET of that URL be answered with a status in 200..299 and a body that is a list
  \<open>objs\<close>. Then \<^verbatim>\<open>from_dataset_all\<close> returns \<open>attrs\<close> exactly when \<open>attrs\<close> has the length of
  \<open>objs\<close> and, position by position, \<open>attrs ! i\<close> is the deserialization of \<open>objs ! i\<close> at the
  URL \<open>attrs_url\<close> with \<^verbatim>\<open>/\<close> and the \<^verbatim>\<open>name\<close> of \<open>objs ! i\<close> appended to its path. A name that
  is a string is appended as it is.
\<close>

theorem from_dataset_all_in_order:
  fixes E :: "('x, 't) externals" and session :: "'s Session"
    and dataset :: "('x, 'y) Dataset_scheme"
  assumes attrs_url: "attrs_url = (dataset_url dataset)
                         \<lparr>path := path (dataset_url dataset) @ ''/attributes''\<rparr>"
    and get: "session_get session (url_str E attrs_url) s = (r, s')"
    and ok: "200 \<le> status_code r \<and> status_code r < 300"
    and body: "json_body r = JList objs"
  shows
    "(from_dataset_all E session dataset s = (Inr attrs, s'') \<longleftrightarrow>
        s'' = s' \<and> length attrs = length objs
        \<and> (\<forall>i<length objs. \<exists>n. getitem (objs ! i) ''name'' = Inr n
              \<and> priv_from_json E (attrs_url\<lparr>path := path attrs_url @ ''/'' @ fmt E n\<rparr>) (objs ! i)
                  = Inr (attrs ! i)))
   \<and> (\<forall>nm. fmt E (JStr nm) = nm)"
proof -
  have "from_dataset_all E session dataset s = (attrs_loop E attrs_url [] objs, s')"
    using get ok body by (simp add: from_dataset_all_def attrs_url successful_def iterate_def)
  then have "from_dataset_all E session dataset s = (Inr attrs, s'') \<longleftrightarrow>
               s'' = s' \<and> attrs_loop E attrs_url [] objs = Inr attrs"
    by auto
  then show ?thesis
    unfolding attrs_loop_Inr_iff list_all2_conv_all_nth
    by (auto simp: fmt_JStr)
qed

text \<open>
  The collection \<^verbatim>\<open>[{"name": "a", ...}, {"name": "b", ...}]\<close> of the dataset
  \<^verbatim>\<open>/datasets/7\<close>: two attributes, at \<^verbatim>\<open>/datasets/7/attributes/a\<close> and
  \<^verbatim>\<open>/datasets/7/attributes/b\<close>, in that order.
\<close>

theorem from_dataset_all_in_order_witness:
  "from_dataset_all fake_externals
      (counting_session
         \<lparr>status_code = 200,
          json_body = JList [JDict (payload ''a'' ''STRING'' True),
                             JDict (payload ''b'' ''INT'' False)]\<rparr>)
      dataset7 0
     = (Inr [attribute_a, attribute_b], 1)
   \<and> map (\<lambda>a. path (attribute_url a)) [attribute_a, attribute_b]
       = [''/datasets/7/attributes/a'', ''/datasets/7/attributes/b'']"
proof -
  let ?objs = "[JDict (payload ''a'' ''STRING'' True), JDict (payload ''b'' ''INT'' False)]"
  let ?r = "\<lparr>status_code = 200, json_body = JList ?objs\<rparr>"
  let ?u = "(dataset_url dataset7)\<lparr>path := path (dataset_url dataset7) @ ''/attributes''\<rparr>"
  have get: "session_get (counting_session ?r) (url_str fake_externals ?u) 0 = (?r, 1)"
    by (simp add: counting_session_def)
  have ok: "200 \<le> status_code ?r \<and> status_code ?r < 300"
    by simp
  have body: "json_body ?r = JList ?objs"
    by simp
  have a: "getitem (JDict (payload ''a'' ''STRING'' True)) ''name'' = Inr (JStr ''a'')"
    and b: "getitem (JDict (payload ''b'' ''INT'' False)) ''name'' = Inr (JStr ''b'')"
    by (simp_all add: getitem_JDict payload_def)
  have da: "priv_from_json fake_externals (?u\<lparr>path := path ?u @ ''/'' @ fmt fake_externals (JStr ''a'')\<rparr>)
              (JDict (payload ''a'' ''STRING'' True)) = Inr attribute_a"
    and db: "priv_from_json fake_externals (?u\<lparr>path := path ?u @ ''/'' @ fmt fake_externals (JStr ''b'')\<rparr>)
              (JDict (payload ''b'' ''INT'' False)) = Inr attribute_b"
    by (simp_all add: priv_from_json_JDict payload_def attribute_a_def attribute_b_def
          fake_externals_def fake_type_from_json_def getitem_JDict fmt_JStr dataset7_def)
  have each: "\<forall>i<length ?objs. \<exists>n. getitem (?objs ! i) ''name'' = Inr n
                \<and> priv_from_json fake_externals (?u\<lparr>path := path ?u @ ''/'' @ fmt fake_externals n\<rparr>)
                     (?objs ! i) = Inr ([attribute_a, attribute_b] ! i)"
  proof (intro allI impI)
    fix i assume "i < length ?objs"
    then have "i = 0 \<or> i = 1" by auto
    then show "\<exists>n. getitem (?objs ! i) ''name'' = Inr n
                \<and> priv_from_json fake_externals (?u\<lparr>path := path ?u @ ''/'' @ fmt fake_externals n\<rparr>)
                     (?objs ! i) = Inr ([attribute_a, attribute_b] ! i)"
      using a b da db by auto
  qed
  have "from_dataset_all fake_externals (counting_session ?r) dataset7 0
          = (Inr [attribute_a, attribute_b], 1)"
    using from_dataset_all_in_order [OF refl get ok body,
            where attrs = "[attribute_a, attribute_b]" and s'' = 1] each
    by simp
  then show ?thesis
    by (simp add: attribute_a_def attribute_b_def)
qed

end
